theory Spec2Isabelle
  imports Main "HOL-Library.Sublist"
begin

section \<open>The Catchat launcher (main.py)\<close>

text \<open>
  The launcher is glue over four external facilities: the module importer, \<open>webbrowser\<close>,
  \<open>tkinter\<close> (with its \<open>messagebox\<close>) and \<open>pywebview\<close> run through \<open>threading\<close>.
  The embedding keeps the module's globals in a record, records every call the program
  makes to one of these facilities in a log, in program order, and returns from every
  function whether it returned or raised. Calls to \<open>webbrowser\<close> and \<open>tkinter\<close> are taken
  to return. What the source itself can get wrong (an attribute access on a global that
  is \<open>None\<close>) is a \<open>Raised\<close> branch of the model, and how the two pywebview calls end
  on the thread the program runs them on is a parameter: the source leaves it to the
  library.
\<close>

subsection \<open>Module globals and their initialisation (lines 15-29)\<close>

datatype error = AttributeError | WebViewException

datatype outcome = Returned | Raised error

datatype module = Tkinter | Messagebox

text \<open>
  The module \<open>webview\<close> as the program meets it: how \<open>webview.create_window\<close> and
  \<open>webview.start\<close> end when they are called from a thread that is not the main thread,
  which is the only place the program calls them.
\<close>

datatype webview_module = Webview (create_window_result: outcome) (start_result: outcome)

text \<open>
  The pywebview library (not code of this repository) behaves as follows: \<open>create_window\<close>
  only registers the window and returns, and \<open>start\<close> checks that it runs on the main
  thread and raises \<open>WebViewException\<close> when it does not. This value is only ever used as
  a concrete input; every general statement holds for all libraries.
\<close>

definition pywebview :: webview_module where
  "pywebview = Webview Returned (Raised WebViewException)"

text \<open>
  What the two \<open>try: import ...\<close> blocks find in the runtime environment, and the
  module that \<open>import webview\<close> binds when it succeeds.
\<close>

record imports_env =
  tkinter_importable :: bool
  messagebox_importable :: bool
  webview_importable :: bool
  webview_installed :: webview_module

record globals =
  tk :: "module option"
  messagebox :: "module option"
  webview :: "webview_module option"
  HAS_WEBVIEW :: bool

definition URL :: string where
  "URL = ''https://awoo-co.github.io/catchat/''"

text \<open>
  Lines 15-27. The first \<open>try\<close> holds both \<open>import tkinter as tk\<close> and
  \<open>from tkinter import messagebox\<close>; its \<open>except\<close> sets both names to \<open>None\<close>, so either
  both are bound to modules or both are \<open>None\<close>.
\<close>

definition module_init :: "imports_env \<Rightarrow> globals" where
  "module_init env =
     \<lparr> tk = (if tkinter_importable env \<and> messagebox_importable env then Some Tkinter else None),
       messagebox =
         (if tkinter_importable env \<and> messagebox_importable env then Some Messagebox else None),
       webview = (if webview_importable env then Some (webview_installed env) else None),
       HAS_WEBVIEW = webview_importable env \<rparr>"

subsection \<open>Calls to the outside world\<close>

datatype stream = Stdout | Stderr

text \<open>The two callables bound to the buttons with \<open>command=\<close>.\<close>

datatype command = Cmd_open_in_webview | Cmd_open_in_browser

datatype webview_call = Create_window string string | Start

text \<open>
  A thread handed to \<open>threading.Thread(target=..., daemon=...)\<close> and started: its daemon
  flag, the calls its target makes (on the new thread, not on the caller's) and how the
  target ends.
\<close>

datatype thread = Thread (daemon: bool) (target_calls: "webview_call list") (target_outcome: outcome)

text \<open>The Python variables that name the widgets of \<open>main\<close>.\<close>

datatype widget = Root | Frm | Lbl | Btn_frame | B1 | B2 | Note

text \<open>Keyword arguments of a tkinter call, in source order, values as written.\<close>

type_synonym options = "(string \<times> string) list"

datatype event =
    Webbrowser_open string nat
  | Print string stream
  | Showerror string string
  | Thread_start thread
  | Tk_Tk widget
  | Tk_title widget string
  | Tk_geometry widget string
  | Tk_Frame widget widget options
  | Tk_Label widget widget options
  | Tk_Button widget widget options command
  | Tk_pack widget options
  | Tk_grid widget options
  | Tk_mainloop widget
  | Tk_report_callback_exception error

record state =
  glob :: globals
  log :: "event list"

definition emit :: "event \<Rightarrow> state \<Rightarrow> state" where
  "emit e s = s\<lparr>log := log s @ [e]\<rparr>"

subsection \<open>The two actions (lines 32-59)\<close>

definition open_in_browser :: "state \<Rightarrow> outcome \<times> state" where
  "open_in_browser s = (Returned, emit (Webbrowser_open URL 2) s)"

text \<open>
  The closure \<open>_run\<close> (lines 53-56). It reads the global \<open>webview\<close> when it runs;
  an attribute access on \<open>None\<close> raises inside the thread. Otherwise it calls
  \<open>create_window\<close> and, if that returns, \<open>start\<close>; an exception of either ends the target.
\<close>

definition run_target :: "globals \<Rightarrow> webview_call list \<times> outcome" where
  "run_target g =
     (case webview g of
        None \<Rightarrow> ([], Raised AttributeError)
      | Some lib \<Rightarrow>
          (case create_window_result lib of
             Raised e \<Rightarrow> ([Create_window ''Catchat'' URL], Raised e)
           | Returned \<Rightarrow> ([Create_window ''Catchat'' URL, Start], start_result lib)))"

definition missing_dialog_title :: string where
  "missing_dialog_title = ''Missing dependency''"

definition missing_dialog_text :: string where
  "missing_dialog_text =
     ''pywebview is not installed.'' @ [CHR 0x0A] @ ''Install with: pip install pywebview''"

definition missing_stderr_text :: string where
  "missing_stderr_text = ''pywebview is not installed. Install with: pip install pywebview''"

definition open_in_webview :: "state \<Rightarrow> outcome \<times> state" where
  "open_in_webview s =
     (if \<not> HAS_WEBVIEW (glob s) then
        (case messagebox (glob s) of
           Some _ \<Rightarrow> (Returned, emit (Showerror missing_dialog_title missing_dialog_text) s)
         | None \<Rightarrow> (Returned, emit (Print missing_stderr_text Stderr) s))
      else
        (case run_target (glob s) of
           (calls, res) \<Rightarrow> (Returned, emit (Thread_start (Thread True calls res)) s)))"

subsection \<open>The launcher window and its event loop (lines 62-92)\<close>

definition fallback_notice :: string where
  "fallback_notice = ''Tkinter is not available in this environment. Opening in browser...''"

definition note_text :: string where
  "note_text =
     ''Note: For embedded view install '' @ [CHR 0x27] @ ''pywebview'' @ [CHR 0x27]
       @ '' (pip install pywebview)''"

definition note_label :: event where
  "note_label = Tk_Label Note Frm [(''text'', note_text), (''fg'', ''gray'')]"

text \<open>Lines 69-86: the calls that build the window, in source order.\<close>

definition window_calls :: "event list" where
  "window_calls =
     [ Tk_Tk Root,
       Tk_title Root ''Catchat'',
       Tk_geometry Root ''420x160'',
       Tk_Frame Frm Root [(''padx'', ''12''), (''pady'', ''12'')],
       Tk_pack Frm [(''expand'', ''True''), (''fill'', ''both'')],
       Tk_Label Lbl Frm [(''text'', ''Open Catchat web UI''), (''font'', ''(None, 14)'')],
       Tk_pack Lbl [(''pady'', ''(0, 10)'')],
       Tk_Frame Btn_frame Frm [],
       Tk_pack Btn_frame [],
       Tk_Button B1 Btn_frame [(''text'', ''Open in App (embedded)''), (''width'', ''22'')]
         Cmd_open_in_webview,
       Tk_grid B1 [(''row'', ''0''), (''column'', ''0''), (''padx'', ''6''), (''pady'', ''6'')],
       Tk_Button B2 Btn_frame [(''text'', ''Open in Browser''), (''width'', ''22'')]
         Cmd_open_in_browser,
       Tk_grid B2 [(''row'', ''0''), (''column'', ''1''), (''padx'', ''6''), (''pady'', ''6'')] ]"

text \<open>Lines 88-90: the hint label, only when \<open>HAS_WEBVIEW\<close> is false.\<close>

definition note_calls :: "globals \<Rightarrow> event list" where
  "note_calls g =
     (if \<not> HAS_WEBVIEW g then [note_label, Tk_pack Note [(''pady'', ''(10, 0)'')]] else [])"

definition build_window :: "state \<Rightarrow> state" where
  "build_window s = s\<lparr>log := log s @ window_calls @ note_calls (glob s)\<rparr>"

text \<open>Calling the callable a button was given.\<close>

fun call :: "command \<Rightarrow> state \<Rightarrow> outcome \<times> state" where
  "call Cmd_open_in_webview s = open_in_webview s"
| "call Cmd_open_in_browser s = open_in_browser s"

text \<open>The command of the button a variable names, read off the calls made so far.\<close>

fun command_of :: "event list \<Rightarrow> widget \<Rightarrow> command option" where
  "command_of [] w = None"
| "command_of (Tk_Button b p opts c # es) w = (if b = w then Some c else command_of es w)"
| "command_of (e # es) w = command_of es w"

text \<open>
  \<open>root.mainloop()\<close> as the program sees it: tkinter runs the command of each button the
  user presses, in order, and returns when the window is closed. The presses of one
  session, up to the closing of the window, are the list; a press on anything that is
  not a button runs nothing. An exception escaping a command is reported by tkinter and
  the loop goes on.
\<close>

fun mainloop :: "widget list \<Rightarrow> state \<Rightarrow> outcome \<times> state" where
  "mainloop [] s = (Returned, s)"
| "mainloop (w # ws) s =
     (case command_of (log s) w of
        None \<Rightarrow> mainloop ws s
      | Some c \<Rightarrow>
          (case call c s of
             (Returned, s') \<Rightarrow> mainloop ws s'
           | (Raised e, s') \<Rightarrow> mainloop ws (emit (Tk_report_callback_exception e) s')))"

definition main :: "widget list \<Rightarrow> state \<Rightarrow> outcome \<times> state" where
  "main presses s =
     (case tk (glob s) of
        None \<Rightarrow> open_in_browser (emit (Print fallback_notice Stdout) s)
      | Some _ \<Rightarrow> mainloop presses (emit (Tk_mainloop Root) (build_window s)))"

text \<open>Running the file as a script: the module body, then \<open>main()\<close> (lines 95-96).\<close>

definition program :: "imports_env \<Rightarrow> widget list \<Rightarrow> outcome \<times> state" where
  "program env presses = main presses \<lparr>glob = module_init env, log = []\<rparr>"

subsection \<open>Observations on a log\<close>

text \<open>
  What the program's \<open>print\<close> calls write to a console stream: \<open>print\<close> adds the line
  terminator.
\<close>

fun console_output :: "event list \<Rightarrow> (stream \<times> string) list" where
  "console_output [] = []"
| "console_output (Print txt f # es) = (f, txt @ [CHR 0x0A]) # console_output es"
| "console_output (e # es) = console_output es"

fun browser_opens :: "event list \<Rightarrow> (string \<times> nat) list" where
  "browser_opens [] = []"
| "browser_opens (Webbrowser_open u n # es) = (u, n) # browser_opens es"
| "browser_opens (e # es) = browser_opens es"


fun threads_started :: "event list \<Rightarrow> thread list" where
  "threads_started [] = []"
| "threads_started (Thread_start t # es) = t # threads_started es"
| "threads_started (e # es) = threads_started es"

fun is_tk_call :: "event \<Rightarrow> bool" where
  "is_tk_call (Webbrowser_open u n) = False"
| "is_tk_call (Print txt f) = False"
| "is_tk_call (Showerror t m) = False"
| "is_tk_call (Thread_start t) = False"
| "is_tk_call e = True"


fun labels :: "event list \<Rightarrow> (widget \<times> options) list" where
  "labels [] = []"
| "labels (Tk_Label l p opts # es) = (l, opts) # labels es"
| "labels (e # es) = labels es"

text \<open>The diagnostics a log shows the user: error dialogs and lines written to a stream.\<close>

fun notices :: "event list \<Rightarrow> string list" where
  "notices [] = []"
| "notices (Showerror t m # es) = m # notices es"
| "notices (Print txt f # es) = txt # notices es"
| "notices (e # es) = notices es"

text \<open>
  What the interpreter writes to standard error on its own account, one traceback per
  exception: \<open>threading\<close> reports an exception that ends the target of a started thread,
  tkinter one that escapes a button's command.
\<close>

fun tracebacks :: "event list \<Rightarrow> error list" where
  "tracebacks [] = []"
| "tracebacks (Thread_start t # es) =
     (case target_outcome t of Returned \<Rightarrow> tracebacks es | Raised e \<Rightarrow> e # tracebacks es)"
| "tracebacks (Tk_report_callback_exception e # es) = e # tracebacks es"
| "tracebacks (e # es) = tracebacks es"

text \<open>The \<open>create_window\<close> calls of a thread's target.\<close>

fun windows_created :: "webview_call list \<Rightarrow> (string \<times> string) list" where
  "windows_created [] = []"
| "windows_created (Create_window t u # cs) = (t, u) # windows_created cs"
| "windows_created (Start # cs) = windows_created cs"

text \<open>
  The rendering windows a started thread brings up: those it created, provided its target
  got through \<open>webview.start()\<close>; when \<open>create_window\<close> or \<open>start\<close> raises, none is shown.
\<close>

definition windows_shown :: "thread \<Rightarrow> (string \<times> string) list" where
  "windows_shown t =
     (case target_outcome t of
        Returned \<Rightarrow> windows_created (target_calls t)
      | Raised e \<Rightarrow> [])"

text \<open>
  The threads the interpreter waits for when the main thread ends: the started ones that
  are not daemons.
\<close>

definition joined_at_exit :: "event list \<Rightarrow> thread list" where
  "joined_at_exit es = filter (\<lambda>t. \<not> daemon t) (threads_started es)"

subsection \<open>What each command adds to the log\<close>

text \<open>
  The event a button's command appends, as a function of the globals it reads;
  \<open>call_response\<close> shows that the embedded functions do exactly this.
\<close>

definition response :: "globals \<Rightarrow> command \<Rightarrow> event" where
  "response g c =
     (case c of
        Cmd_open_in_browser \<Rightarrow> Webbrowser_open URL 2
      | Cmd_open_in_webview \<Rightarrow>
          (if HAS_WEBVIEW g then
             Thread_start (Thread True (fst (run_target g)) (snd (run_target g)))
           else if messagebox g = None then Print missing_stderr_text Stderr
           else Showerror missing_dialog_title missing_dialog_text))"

text \<open>The presses of a session that land on one of the two buttons of \<open>main\<close>.\<close>

definition pressed_commands :: "widget list \<Rightarrow> command list" where
  "pressed_commands presses = List.map_filter (command_of window_calls) presses"

section \<open>Basic facts\<close>

lemma glob_emit: "glob (emit e s) = glob s"
  by (simp add: emit_def)

lemma log_emit: "log (emit e s) = log s @ [e]"
  by (simp add: emit_def)

lemma call_response: "call c s = (Returned, emit (response (glob s) c) s)"
  by (cases c)
    (auto simp: open_in_webview_def open_in_browser_def response_def
      split: option.splits prod.splits)

lemma command_of_append:
  "command_of (es @ es') w =
     (case command_of es w of Some c \<Rightarrow> Some c | None \<Rightarrow> command_of es' w)"
  by (induction es w rule: command_of.induct) auto

lemma command_of_response: "command_of [response g c] w = None"
  by (cases c) (auto simp: response_def)

lemma command_of_snoc_response: "command_of (es @ [response g c]) w = command_of es w"
  by (simp add: command_of_append command_of_response split: option.splits)

text \<open>
  The event loop in closed form: the globals are never touched, every press on a button
  appends the response of its command, and the buttons themselves never change, since no
  response creates one.
\<close>

lemma mainloop_closed:
  "mainloop presses s =
     (Returned,
      s\<lparr>log := log s @ map (response (glob s)) (List.map_filter (command_of (log s)) presses)\<rparr>)"
proof (induction presses arbitrary: s)
  case Nil
  show ?case by simp
next
  case (Cons w ws)
  show ?case
  proof (cases "command_of (log s) w")
    case None
    then show ?thesis using Cons.IH [of s] by simp
  next
    case (Some c)
    have same: "command_of (log (emit (response (glob s) c) s)) = command_of (log s)"
      by (rule ext) (simp add: log_emit command_of_snoc_response)
    show ?thesis
      using Some Cons.IH [of "emit (response (glob s) c) s"]
      by (simp add: call_response same glob_emit) (simp add: emit_def)
  qed
qed


lemma browser_opens_append: "browser_opens (es @ es') = browser_opens es @ browser_opens es'"
  by (induction es rule: browser_opens.induct) auto


lemma threads_started_append:
  "threads_started (es @ es') = threads_started es @ threads_started es'"
  by (induction es rule: threads_started.induct) auto


lemma labels_append: "labels (es @ es') = labels es @ labels es'"
  by (induction es rule: labels.induct) auto

lemma notices_append: "notices (es @ es') = notices es @ notices es'"
  by (induction es rule: notices.induct) auto

text \<open>Runs of \<open>main\<close> and of the whole program in closed form, and what the responses hold.\<close>

lemma command_of_note_calls: "command_of (note_calls g) w = None"
  by (simp add: note_calls_def note_label_def)

lemma command_of_built:
  "command_of (window_calls @ note_calls g @ [Tk_mainloop Root]) = command_of window_calls"
  by (rule ext) (simp add: command_of_append command_of_note_calls split: option.splits)

lemma main_windowed:
  assumes "tk (glob s) \<noteq> None"
  shows "main presses s =
           mainloop presses (s\<lparr>log := log s @ window_calls @ note_calls (glob s) @ [Tk_mainloop Root]\<rparr>)"
  using assms by (auto simp: main_def build_window_def emit_def)

lemma program_windowed:
  assumes "tkinter_importable env" and "messagebox_importable env"
  shows "program env presses =
           (Returned,
            \<lparr>glob = module_init env,
             log = window_calls @ note_calls (module_init env) @ [Tk_mainloop Root]
                     @ map (response (module_init env)) (pressed_commands presses)\<rparr>)"
proof -
  have "tk (module_init env) \<noteq> None"
    using assms by (simp add: module_init_def)
  then show ?thesis
    by (simp add: program_def main_windowed mainloop_closed command_of_built pressed_commands_def)
qed

lemma program_fallback:
  assumes "\<not> (tkinter_importable env \<and> messagebox_importable env)"
  shows "program env presses =
           (Returned,
            \<lparr>glob = module_init env,
             log = [Print fallback_notice Stdout, Webbrowser_open URL 2]\<rparr>)"
  using assms by (auto simp: program_def main_def module_init_def open_in_browser_def emit_def)

lemma glob_main: "glob (snd (main presses s)) = glob s"
  by (cases "tk (glob s)")
    (simp_all add: main_def mainloop_closed open_in_browser_def glob_emit build_window_def)

text \<open>
  After the module body, \<open>HAS_WEBVIEW\<close> implies that \<open>webview\<close> is bound, so \<open>_run\<close> gets
  as far as \<open>create_window\<close>.
\<close>

lemma webview_bound_after_init:
  assumes "HAS_WEBVIEW (module_init env)"
  shows "webview (module_init env) = Some (webview_installed env)"
  using assms by (simp add: module_init_def)


lemma labels_response: "labels (response g c # es) = labels es"
  by (cases c) (simp_all add: response_def)


lemma joined_response:
  "filter (\<lambda>t. \<not> daemon t) (threads_started (response g c # es)) =
     filter (\<lambda>t. \<not> daemon t) (threads_started es)"
  by (cases c) (simp_all add: response_def)



lemma labels_responses: "labels (map (response g) cs) = []"
  by (induction cs) (simp_all add: labels_response)


lemma threads_responses_daemon:
  "filter (\<lambda>t. \<not> daemon t) (threads_started (map (response g) cs)) = []"
  by (induction cs) (simp_all add: joined_response)






lemma labels_window_calls:
  "labels window_calls = [(Lbl, [(''text'', ''Open Catchat web UI''), (''font'', ''(None, 14)'')])]"
  by (simp add: window_calls_def)



lemma threads_window_calls: "threads_started window_calls = []"
  by (simp add: window_calls_def)

lemma threads_note_calls: "threads_started (note_calls g) = []"
  by (simp add: note_calls_def note_label_def)

lemma before_mainloop:
  "takeWhile (\<lambda>e. e \<noteq> Tk_mainloop Root) (window_calls @ note_calls g @ Tk_mainloop Root # es) =
     window_calls @ note_calls g"
  by (simp add: window_calls_def note_calls_def note_label_def)

lemma tracebacks_append: "tracebacks (es @ es') = tracebacks es @ tracebacks es'"
  by (induction es rule: tracebacks.induct) (auto split: outcome.splits)



lemma tracebacks_window_calls: "tracebacks window_calls = []"
  by (simp add: window_calls_def)

lemma tracebacks_note_calls: "tracebacks (note_calls g) = []"
  by (simp add: note_calls_def note_label_def)



text \<open>Which widget runs which command: \<open>b1\<close> and \<open>b2\<close> have one, nothing else has.\<close>

lemma command_of_window_calls:
  "command_of window_calls =
     (\<lambda>w. if w = B1 then Some Cmd_open_in_webview
          else if w = B2 then Some Cmd_open_in_browser
          else None)"
  by (rule ext) (simp add: window_calls_def)

lemma pressed_commands_Nil: "pressed_commands [] = []"
  by (simp add: pressed_commands_def)

lemma pressed_commands_Cons:
  "pressed_commands (w # ws) =
     (if w = B1 then Cmd_open_in_webview # pressed_commands ws
      else if w = B2 then Cmd_open_in_browser # pressed_commands ws
      else pressed_commands ws)"
  by (simp add: pressed_commands_def command_of_window_calls)




text \<open>
  The hand-off of \<open>open_in_webview\<close> when \<open>webview\<close> is bound: the caller returns after
  starting one daemon thread, and the webview calls are the target's, \<open>create_window\<close>
  first and \<open>start\<close> only if that returned.
\<close>

lemma open_in_webview_hands_off:
  assumes "HAS_WEBVIEW (glob s)" and "webview (glob s) = Some lib"
  shows "open_in_webview s =
           (Returned,
            s\<lparr>log := log s @
              [Thread_start
                 (Thread True
                    (Create_window ''Catchat'' ''https://awoo-co.github.io/catchat/''
                       # (if create_window_result lib = Returned then [Start] else []))
                    (if create_window_result lib = Returned then start_result lib
                     else create_window_result lib))]\<rparr>)"
  using assms
  by (cases "create_window_result lib")
    (simp_all add: open_in_webview_def run_target_def emit_def URL_def)

text \<open>A window comes up exactly when the library lets both calls through on that thread.\<close>

lemma windows_shown_by_target:
  assumes "webview g = Some lib"
  shows "windows_shown (Thread True (fst (run_target g)) (snd (run_target g))) =
           (if create_window_result lib = Returned \<and> start_result lib = Returned
            then [(''Catchat'', ''https://awoo-co.github.io/catchat/'')] else [])"
  using assms
  by (cases "create_window_result lib"; cases "start_result lib")
    (simp_all add: windows_shown_def run_target_def URL_def)

section \<open>The browser action\<close>

text \<open>
  C4. Every call of \<open>open_in_browser\<close> returns normally and makes exactly one call
  \<open>webbrowser.open("https://awoo-co.github.io/catchat/", new=2)\<close>: the log grows by that
  one event, the list of browser calls by that one entry, and neither depends on the value
  of \<open>HAS_WEBVIEW\<close>.
\<close>

theorem open_in_browser_opens_url_once:
  "open_in_browser s =
     (Returned, s\<lparr>log := log s @ [Webbrowser_open ''https://awoo-co.github.io/catchat/'' 2]\<rparr>)
   \<and> browser_opens (log (snd (open_in_browser s))) =
       browser_opens (log s) @ [(''https://awoo-co.github.io/catchat/'', 2)]
   \<and> log (snd (open_in_browser (s\<lparr>glob := (glob s)\<lparr>HAS_WEBVIEW := b\<rparr>\<rparr>))) =
       log (snd (open_in_browser s))"
  by (simp add: open_in_browser_def emit_def URL_def browser_opens_append)

section \<open>Start-up without tkinter\<close>

text \<open>
  C1. When tkinter cannot be imported, a run of the program makes exactly two calls and
  returns normally: it prints the one-line notice (to standard output) and then calls
  \<open>webbrowser.open\<close> once, with the URL \<open>https://awoo-co.github.io/catchat/\<close>. No tkinter
  call is made, so no window is constructed, whatever the user would have pressed.
\<close>

theorem no_tkinter_falls_back_to_browser:
  assumes "\<not> tkinter_importable env"
  shows "program env presses =
           (Returned,
            \<lparr>glob = module_init env,
             log = [Print ''Tkinter is not available in this environment. Opening in browser...''
                      Stdout,
                    Webbrowser_open ''https://awoo-co.github.io/catchat/'' 2]\<rparr>)
         \<and> filter is_tk_call (log (snd (program env presses))) = []
         \<and> browser_opens (log (snd (program env presses))) =
             [(''https://awoo-co.github.io/catchat/'', 2)]
         \<and> console_output (log (snd (program env presses))) =
             [(Stdout, fallback_notice @ [CHR 0x0A])]
         \<and> CHR 0x0A \<notin> set fallback_notice"
  using assms
  by (simp add: program_def main_def module_init_def open_in_browser_def emit_def URL_def
      fallback_notice_def)

theorem no_tkinter_falls_back_to_browser_witness:
  "\<not> tkinter_importable
        \<lparr>tkinter_importable = False, messagebox_importable = False, webview_importable = True,
          webview_installed = pywebview\<rparr>
   \<and> program
        \<lparr>tkinter_importable = False, messagebox_importable = False, webview_importable = True,
          webview_installed = pywebview\<rparr>
        [B1, B2] =
       (Returned,
        \<lparr>glob = \<lparr>tk = None, messagebox = None, webview = Some pywebview, HAS_WEBVIEW = True\<rparr>,
         log = [Print ''Tkinter is not available in this environment. Opening in browser...''
                  Stdout,
                Webbrowser_open ''https://awoo-co.github.io/catchat/'' 2]\<rparr>)"
  using no_tkinter_falls_back_to_browser
    [of "\<lparr>tkinter_importable = False, messagebox_importable = False, webview_importable = True,
          webview_installed = pywebview\<rparr>"
        "[B1, B2]"]
  by (simp add: module_init_def)

section \<open>The embedded action without pywebview\<close>

text \<open>
  C3. When \<open>HAS_WEBVIEW\<close> is false, \<open>open_in_webview\<close> returns normally, leaves the globals
  alone, starts no thread (so no rendering window) and produces exactly one notice: an
  error dialog when \<open>messagebox\<close> is there, a line on standard error otherwise. Either
  text says that pywebview is not installed and names the remedy
  \<open>pip install pywebview\<close>.
\<close>

theorem open_in_webview_missing_reports_once:
  assumes "\<not> HAS_WEBVIEW (glob s)"
  shows "fst (open_in_webview s) = Returned
         \<and> glob (snd (open_in_webview s)) = glob s
         \<and> log (snd (open_in_webview s)) =
             log s @ [if messagebox (glob s) = None
                      then Print ''pywebview is not installed. Install with: pip install pywebview''
                             Stderr
                      else Showerror ''Missing dependency'' missing_dialog_text]
         \<and> notices (log (snd (open_in_webview s))) =
             notices (log s) @ [if messagebox (glob s) = None then missing_stderr_text
                                else missing_dialog_text]
         \<and> threads_started (log (snd (open_in_webview s))) = threads_started (log s)
         \<and> sublist ''pywebview is not installed'' missing_stderr_text
         \<and> sublist ''pip install pywebview'' missing_stderr_text
         \<and> sublist ''pywebview is not installed'' missing_dialog_text
         \<and> sublist ''pip install pywebview'' missing_dialog_text"
proof -
  have parts: "sublist ''pywebview is not installed'' missing_stderr_text"
    "sublist ''pip install pywebview'' missing_stderr_text"
    "sublist ''pywebview is not installed'' missing_dialog_text"
    "sublist ''pip install pywebview'' missing_dialog_text"
    unfolding missing_stderr_text_def missing_dialog_text_def by code_simp+
  have act: "open_in_webview s =
      (Returned, emit (if messagebox (glob s) = None then Print missing_stderr_text Stderr
                       else Showerror missing_dialog_title missing_dialog_text) s)"
    using assms by (simp add: open_in_webview_def split: option.splits)
  show ?thesis
    unfolding act using parts
    by (simp add: emit_def notices_append threads_started_append missing_stderr_text_def
        missing_dialog_title_def)
qed

theorem open_in_webview_missing_reports_once_witness:
  "\<not> HAS_WEBVIEW \<lparr>tk = Some Tkinter, messagebox = Some Messagebox, webview = None,
                   HAS_WEBVIEW = False\<rparr>
   \<and> open_in_webview
       \<lparr>glob = \<lparr>tk = Some Tkinter, messagebox = Some Messagebox, webview = None,
                HAS_WEBVIEW = False\<rparr>,
        log = []\<rparr> =
      (Returned,
       \<lparr>glob = \<lparr>tk = Some Tkinter, messagebox = Some Messagebox, webview = None,
                HAS_WEBVIEW = False\<rparr>,
        log = [Showerror ''Missing dependency''
                 (''pywebview is not installed.'' @ [CHR 0x0A]
                    @ ''Install with: pip install pywebview'')]\<rparr>)"
  using open_in_webview_missing_reports_once
    [of "\<lparr>glob = \<lparr>tk = Some Tkinter, messagebox = Some Messagebox, webview = None,
                   HAS_WEBVIEW = False\<rparr>, log = []\<rparr>"]
  by (simp add: missing_dialog_text_def prod_eq_iff)

text \<open>
  C9. \<open>open_in_webview\<close> returns normally for every value of the globals. With
  \<open>HAS_WEBVIEW\<close> false and \<open>messagebox\<close> equal to \<open>None\<close> it prints the missing-dependency
  line to standard error and does nothing else; that line is the text of the dialog
  with the line break replaced by a space.
\<close>

theorem open_in_webview_never_raises:
  "fst (open_in_webview s) = Returned
   \<and> (\<not> HAS_WEBVIEW (glob s) \<and> messagebox (glob s) = None \<longrightarrow>
        open_in_webview s =
          (Returned,
           s\<lparr>log := log s @
               [Print ''pywebview is not installed. Install with: pip install pywebview''
                  Stderr]\<rparr>))
   \<and> map (\<lambda>c. if c = CHR 0x0A then CHR '' '' else c) missing_dialog_text = missing_stderr_text"
  by (simp add: open_in_webview_def emit_def missing_stderr_text_def missing_dialog_text_def
      split: option.splits prod.splits)

theorem open_in_webview_never_raises_witness:
  "\<not> HAS_WEBVIEW \<lparr>tk = None, messagebox = None, webview = None, HAS_WEBVIEW = False\<rparr>
   \<and> messagebox \<lparr>tk = None, messagebox = None, webview = None, HAS_WEBVIEW = False\<rparr> = None
   \<and> open_in_webview
       \<lparr>glob = \<lparr>tk = None, messagebox = None, webview = None, HAS_WEBVIEW = False\<rparr>, log = []\<rparr> =
      (Returned,
       \<lparr>glob = \<lparr>tk = None, messagebox = None, webview = None, HAS_WEBVIEW = False\<rparr>,
        log = [Print ''pywebview is not installed. Install with: pip install pywebview''
                 Stderr]\<rparr>)"
  using open_in_webview_never_raises
    [of "\<lparr>glob = \<lparr>tk = None, messagebox = None, webview = None, HAS_WEBVIEW = False\<rparr>,
          log = []\<rparr>"]
  by simp

section \<open>Start-up with tkinter\<close>



text \<open>
  C10. In a run with a window, the labels created are the heading and, exactly when
  pywebview could not be imported, one more: the label \<open>note\<close>, with \<open>fg="gray"\<close> and a
  text that names \<open>'pywebview'\<close> and the remedy \<open>pip install pywebview\<close>. It is created and
  packed before \<open>mainloop\<close> is entered, so before any button can be pressed, and no later
  call creates or removes a label.
\<close>

theorem hint_label_iff_pywebview_missing:
  assumes "tkinter_importable env" and "messagebox_importable env"
  shows "labels (log (snd (program env presses))) =
           (Lbl, [(''text'', ''Open Catchat web UI''), (''font'', ''(None, 14)'')])
             # (if webview_importable env then []
                else [(Note, [(''text'', note_text), (''fg'', ''gray'')])])
         \<and> takeWhile (\<lambda>e. e \<noteq> Tk_mainloop Root) (log (snd (program env presses))) =
             window_calls @
               (if webview_importable env then []
                else [Tk_Label Note Frm [(''text'', note_text), (''fg'', ''gray'')],
                      Tk_pack Note [(''pady'', ''(10, 0)'')]])
         \<and> note_text =
             ''Note: For embedded view install '' @ [CHR 0x27] @ ''pywebview'' @ [CHR 0x27]
               @ '' (pip install pywebview)''
         \<and> sublist ''pywebview'' note_text"
proof -
  have name: "sublist ''pywebview'' note_text"
    unfolding note_text_def by code_simp
  have hint: "note_calls (module_init env) =
      (if webview_importable env then []
       else [Tk_Label Note Frm [(''text'', note_text), (''fg'', ''gray'')],
             Tk_pack Note [(''pady'', ''(10, 0)'')]])"
    by (simp add: note_calls_def note_label_def module_init_def)
  have lbls: "labels (log (snd (program env presses))) =
           (Lbl, [(''text'', ''Open Catchat web UI''), (''font'', ''(None, 14)'')])
             # (if webview_importable env then []
                else [(Note, [(''text'', note_text), (''fg'', ''gray'')])])"
    using assms
    by (simp add: program_windowed labels_append labels_window_calls labels_responses hint)
  have built: "takeWhile (\<lambda>e. e \<noteq> Tk_mainloop Root) (log (snd (program env presses))) =
      window_calls @ note_calls (module_init env)"
    using assms by (simp add: program_windowed before_mainloop del: takeWhile_append)
  show ?thesis
    using name lbls built unfolding hint by (simp add: note_text_def)
qed

theorem hint_label_iff_pywebview_missing_witness:
  "tkinter_importable
      \<lparr>tkinter_importable = True, messagebox_importable = True, webview_importable = False,
          webview_installed = pywebview\<rparr>
   \<and> messagebox_importable
      \<lparr>tkinter_importable = True, messagebox_importable = True, webview_importable = False,
          webview_installed = pywebview\<rparr>
   \<and> labels (log (snd (program
        \<lparr>tkinter_importable = True, messagebox_importable = True, webview_importable = False,
          webview_installed = pywebview\<rparr>
        [B1, B2]))) =
      [(Lbl, [(''text'', ''Open Catchat web UI''), (''font'', ''(None, 14)'')]),
       (Note, [(''text'', note_text), (''fg'', ''gray'')])]"
  using hint_label_iff_pywebview_missing
    [of "\<lparr>tkinter_importable = True, messagebox_importable = True, webview_importable = False,
          webview_installed = pywebview\<rparr>"
        "[B1, B2]"]
  by simp

section \<open>The embedded action with pywebview\<close>

text \<open>
  C8. When \<open>HAS_WEBVIEW\<close> is true, \<open>open_in_webview\<close> starts exactly one thread, and that
  thread is created with \<open>daemon=True\<close>. A call of \<open>open_in_webview\<close> therefore never adds
  a thread that the interpreter waits for at exit, and over a whole run of the program,
  whatever is pressed, the list of such threads is empty.
\<close>

theorem webview_thread_is_daemon:
  assumes "HAS_WEBVIEW (glob s)"
  shows "threads_started (log (snd (open_in_webview s))) =
           threads_started (log s) @
             [Thread True (fst (run_target (glob s))) (snd (run_target (glob s)))]
         \<and> joined_at_exit (log (snd (open_in_webview s))) = joined_at_exit (log s)
         \<and> joined_at_exit (log (snd (program env presses))) = []"
proof -
  have embedded: "open_in_webview s = (Returned, emit (response (glob s) Cmd_open_in_webview) s)"
    using call_response [of Cmd_open_in_webview s] by simp
  have one: "threads_started (log (snd (open_in_webview s))) =
           threads_started (log s) @
             [Thread True (fst (run_target (glob s))) (snd (run_target (glob s)))]"
    unfolding embedded using assms
    by (simp add: log_emit threads_started_append response_def)
  have run: "joined_at_exit (log (snd (program env presses))) = []"
    by (cases "tkinter_importable env \<and> messagebox_importable env")
      (simp_all add: program_windowed program_fallback joined_at_exit_def threads_started_append
        threads_window_calls threads_note_calls threads_responses_daemon)
  show ?thesis
    using one run by (simp add: joined_at_exit_def)
qed

theorem webview_thread_is_daemon_witness:
  "HAS_WEBVIEW \<lparr>tk = Some Tkinter, messagebox = Some Messagebox, webview = Some pywebview,
                HAS_WEBVIEW = True\<rparr>
   \<and> threads_started (log (snd (open_in_webview
        \<lparr>glob = \<lparr>tk = Some Tkinter, messagebox = Some Messagebox, webview = Some pywebview,
                 HAS_WEBVIEW = True\<rparr>,
         log = []\<rparr>))) =
       [Thread True [Create_window ''Catchat'' ''https://awoo-co.github.io/catchat/'', Start]
          (Raised WebViewException)]"
  using webview_thread_is_daemon
    [of "\<lparr>glob = \<lparr>tk = Some Tkinter, messagebox = Some Messagebox, webview = Some pywebview,
                   HAS_WEBVIEW = True\<rparr>, log = []\<rparr>"]
  by (simp add: run_target_def pywebview_def URL_def)

section \<open>The globals are read-only\<close>

text \<open>
  C7. \<open>HAS_WEBVIEW\<close> is the boolean set by the module body to whether \<open>import webview\<close>
  succeeded. Neither action, nor the event loop, nor \<open>main\<close> changes the globals, so at
  the end of a run they are the ones the module body set. Both uses of the flag read
  that value: the hint label of the window and the response to every press on the
  embedded button are those of \<open>module_init env\<close>.
\<close>

theorem has_webview_fixed_at_startup:
  "HAS_WEBVIEW (module_init env) = webview_importable env
   \<and> glob (snd (open_in_browser s)) = glob s
   \<and> glob (snd (open_in_webview s)) = glob s
   \<and> glob (snd (mainloop presses s)) = glob s
   \<and> glob (snd (main presses s)) = glob s
   \<and> glob (snd (program env presses)) = module_init env
   \<and> log (snd (program env presses)) =
       (if tkinter_importable env \<and> messagebox_importable env
        then window_calls @ note_calls (module_init env) @ [Tk_mainloop Root]
               @ map (response (module_init env)) (pressed_commands presses)
        else [Print fallback_notice Stdout, Webbrowser_open URL 2])"
proof -
  have embedded: "open_in_webview s = (Returned, emit (response (glob s) Cmd_open_in_webview) s)"
    using call_response [of Cmd_open_in_webview s] by simp
  have run: "glob (snd (program env presses)) = module_init env"
    by (simp add: program_def glob_main)
  have trace: "log (snd (program env presses)) =
       (if tkinter_importable env \<and> messagebox_importable env
        then window_calls @ note_calls (module_init env) @ [Tk_mainloop Root]
               @ map (response (module_init env)) (pressed_commands presses)
        else [Print fallback_notice Stdout, Webbrowser_open URL 2])"
  proof (cases "tkinter_importable env \<and> messagebox_importable env")
    case True
    then show ?thesis by (simp add: program_windowed)
  next
    case False
    show ?thesis
      unfolding if_not_P [OF False] by (simp add: program_fallback [OF False])
  qed
  show ?thesis
    using run trace
    by (simp add: module_init_def open_in_browser_def glob_emit embedded mainloop_closed glob_main)
qed

section \<open>Console output\<close>




section \<open>The embedded action with pywebview: no window comes up\<close>

text \<open>
  C2. The hand-off is as the claim says: with \<open>HAS_WEBVIEW\<close> true the embedded action
  starts one daemon thread and returns, and the webview calls are made by the thread's
  target, not by the caller (\<open>open_in_webview_hands_off\<close>). The rendering window is
  another matter. The target calls \<open>webview.start()\<close> on the new thread, and pywebview
  raises there; the thread dies with a traceback on standard error and no window is
  shown. In a run with tkinter and pywebview installed and one press on the embedded
  button: the run returns normally, exactly one thread was started, its target called
  \<open>create_window\<close> and \<open>start\<close> and ended in \<open>WebViewException\<close>, and the rendering
  windows shown are none.
\<close>

theorem embedded_button_with_pywebview_shows_no_window:
  "fst (program
      \<lparr>tkinter_importable = True, messagebox_importable = True, webview_importable = True,
         webview_installed = pywebview\<rparr> [B1]) = Returned
   \<and> threads_started (log (snd (program
      \<lparr>tkinter_importable = True, messagebox_importable = True, webview_importable = True,
         webview_installed = pywebview\<rparr> [B1]))) =
       [Thread True [Create_window ''Catchat'' ''https://awoo-co.github.io/catchat/'', Start]
          (Raised WebViewException)]
   \<and> concat (map windows_shown (threads_started (log (snd (program
      \<lparr>tkinter_importable = True, messagebox_importable = True, webview_importable = True,
         webview_installed = pywebview\<rparr> [B1]))))) = []
   \<and> tracebacks (log (snd (program
      \<lparr>tkinter_importable = True, messagebox_importable = True, webview_importable = True,
         webview_installed = pywebview\<rparr> [B1]))) = [WebViewException]"
  by (simp add: program_windowed pressed_commands_Cons pressed_commands_Nil
      threads_started_append threads_window_calls threads_note_calls tracebacks_append
      tracebacks_window_calls tracebacks_note_calls)
    (simp add: response_def run_target_def module_init_def pywebview_def windows_shown_def
      URL_def)

end
